theory Spec2Isabelle
  imports Complex_Main
begin

section \<open>Time\<close>

text \<open>
  A naive UTC \<^verbatim>\<open>datetime\<close> is a point on the proleptic time line, counted in
  microseconds (the resolution of Python's \<^verbatim>\<open>datetime\<close>); a
  \<^verbatim>\<open>timedelta\<close> is a difference of two such points and a \<^verbatim>\<open>time\<close> is the
  number of microseconds since midnight. Python compares \<^verbatim>\<open>time\<close> values by
  (hour, minute, second, microsecond), which is the order of these numbers.
\<close>

type_synonym datetime = int
type_synonym timedelta = int
type_synonym time = int

definition timedelta_minutes :: "int \<Rightarrow> timedelta" where
  "timedelta_minutes m = m * 60000000"

definition timedelta_hours :: "int \<Rightarrow> timedelta" where
  "timedelta_hours h = h * 3600000000"

definition timedelta_days :: "int \<Rightarrow> timedelta" where
  "timedelta_days d = d * 86400000000"

definition time_of :: "int \<Rightarrow> int \<Rightarrow> time" where
  \<comment> \<open>\<^verbatim>\<open>time(h, m)\<close>\<close>
  "time_of h m = h * 3600000000 + m * 60000000"

definition dt_time :: "datetime \<Rightarrow> time" where
  \<comment> \<open>\<^verbatim>\<open>datetime.time()\<close>\<close>
  "dt_time t = t mod 86400000000"

definition dt_hour :: "datetime \<Rightarrow> int" where
  \<comment> \<open>\<^verbatim>\<open>datetime.hour\<close>\<close>
  "dt_hour t = dt_time t div 3600000000"

section \<open>Configuration (scheduler\_config.py)\<close>

record BatchConfig =
  min_videos :: int
  max_videos :: int
  default_batch_size :: int
  adaptive :: bool
  max_daily_videos :: int
  max_hourly_videos :: int
  api_cooldown_minutes :: int
  retry_on_failure :: bool
  max_retries :: int

record ScheduleConfig =
  interval_hours :: int
  optimal_times :: "time list"
  timezone :: string
  quiet_hours_start :: time
  quiet_hours_end :: time

record AntigravitySchedulerConfig =
  batch :: BatchConfig
  schedule :: ScheduleConfig
  agent_has_veto :: bool
  mode :: string

definition default_batch_config :: BatchConfig where
  "default_batch_config =
     \<lparr>min_videos = 1, max_videos = 5, default_batch_size = 3, adaptive = True,
      max_daily_videos = 20, max_hourly_videos = 8, api_cooldown_minutes = 5,
      retry_on_failure = True, max_retries = 3\<rparr>"

definition default_schedule_config :: ScheduleConfig where
  "default_schedule_config =
     \<lparr>interval_hours = 6,
      optimal_times = [time_of 9 0, time_of 15 0, time_of 21 0],
      timezone = ''UTC'',
      quiet_hours_start = time_of 1 0, quiet_hours_end = time_of 6 0\<rparr>"

definition DEFAULT_CONFIG :: AntigravitySchedulerConfig where
  "DEFAULT_CONFIG =
     \<lparr>batch = default_batch_config, schedule = default_schedule_config,
      agent_has_veto = True, mode = ''scheduled''\<rparr>"

section \<open>Results (batch\_coordinator.py)\<close>

datatype BatchStatus = PENDING | RUNNING | COMPLETED | PARTIAL | FAILED | SKIPPED

text \<open>
  \<^verbatim>\<open>video_id\<close> is the string \<^verbatim>\<open>vid_<timestamp>\<close>; the record keeps the clock
  reading the string is printed from. \<^verbatim>\<open>generation_time\<close> and \<^verbatim>\<open>total_time\<close>
  are kept as the \<^verbatim>\<open>timedelta\<close> whose \<^verbatim>\<open>total_seconds()\<close> the source stores.
\<close>

record VideoResult =
  video_id :: "datetime option"
  platform :: string
  niche :: string
  video_status :: string
  error :: "string option"
  generation_time :: timedelta
  metadata :: "(string \<times> int) list"

text \<open>
  \<^verbatim>\<open>batch_id\<close> is \<^verbatim>\<open>batch_%Y%m%d_%H%M%S\<close> of a clock reading: the reading cut
  to whole seconds.
\<close>

type_synonym batch_id = int

record BatchResult =
  batch_id :: batch_id
  status :: BatchStatus
  requested_count :: int
  successful_count :: int
  failed_count :: int
  skipped_count :: int
  total_time :: timedelta
  videos :: "VideoResult list"
  agent_decision :: "(string \<times> string) list"
  timestamp :: datetime

section \<open>The coordinator's state and the clock\<close>

text \<open>
  The fields of \<^verbatim>\<open>BatchCoordinator\<close> that change at run time. Every call of
  \<^verbatim>\<open>datetime.utcnow()\<close> is a new reading of the clock: the clock is a sequence of
  readings \<open>clk\<close>, and \<open>reads\<close> counts the readings taken so far.
\<close>

record BatchCoordinator =
  current_batch :: "batch_id option"
  execution_history :: "BatchResult list"
  last_execution :: "datetime option"
  daily_video_count :: int
  hourly_video_count :: int
  last_hour_reset :: datetime
  last_day_reset :: datetime
  reads :: nat

type_synonym clock = "nat \<Rightarrow> datetime"

definition utcnow :: "clock \<Rightarrow> BatchCoordinator \<Rightarrow> datetime \<times> BatchCoordinator" where
  "utcnow clk s = (clk (reads s), s\<lparr>reads := Suc (reads s)\<rparr>)"

section \<open>Gate\<close>

definition reset_counters :: "clock \<Rightarrow> BatchCoordinator \<Rightarrow> BatchCoordinator" where
  "reset_counters clk s =
     (let (now, s1) = utcnow clk s;
          s2 = (if now - last_hour_reset s1 \<ge> timedelta_hours 1
                then s1\<lparr>hourly_video_count := 0, last_hour_reset := now\<rparr> else s1);
          s3 = (if now - last_day_reset s2 \<ge> timedelta_days 1
                then s2\<lparr>daily_video_count := 0, last_day_reset := now\<rparr> else s2)
      in s3)"

definition quiet_hours_at :: "AntigravitySchedulerConfig \<Rightarrow> time \<Rightarrow> bool" where
  \<comment> \<open>the comparison of \<^verbatim>\<open>_is_quiet_hours\<close>, at the time of day \<open>now\<close>\<close>
  "quiet_hours_at cfg now =
     (let start = quiet_hours_start (schedule cfg);
          end = quiet_hours_end (schedule cfg)
      in if start < end then start \<le> now \<and> now \<le> end
         else now \<ge> start \<or> now \<le> end)"

definition is_quiet_hours ::
  "AntigravitySchedulerConfig \<Rightarrow> clock \<Rightarrow> BatchCoordinator \<Rightarrow> bool \<times> BatchCoordinator" where
  "is_quiet_hours cfg clk s =
     (let (t, s1) = utcnow clk s in (quiet_hours_at cfg (dt_time t), s1))"

text \<open>
  \<^verbatim>\<open>_should_execute\<close> returns a boolean and logs which check refused; the model
  returns the check, and \<open>Proceed\<close> is the source's \<^verbatim>\<open>True\<close>.
\<close>

datatype gate = Proceed | DailyLimit | HourlyLimit | Cooldown | QuietHours

definition in_cooldown ::
  "AntigravitySchedulerConfig \<Rightarrow> clock \<Rightarrow> BatchCoordinator \<Rightarrow> bool \<times> BatchCoordinator" where
  "in_cooldown cfg clk s =
     (case last_execution s of
        None \<Rightarrow> (False, s)
      | Some le \<Rightarrow>
          (let (now, s1) = utcnow clk s
           in (now - le < timedelta_minutes (api_cooldown_minutes (batch cfg)), s1)))"

definition should_execute ::
  "AntigravitySchedulerConfig \<Rightarrow> clock \<Rightarrow> BatchCoordinator \<Rightarrow> gate \<times> BatchCoordinator" where
  "should_execute cfg clk s =
     (let s1 = reset_counters clk s in
      if daily_video_count s1 \<ge> max_daily_videos (batch cfg) then (DailyLimit, s1)
      else if hourly_video_count s1 \<ge> max_hourly_videos (batch cfg) then (HourlyLimit, s1)
      else
        (let (cool, s2) = in_cooldown cfg clk s1 in
         if cool then (Cooldown, s2)
         else
           (let (quiet, s3) = is_quiet_hours cfg clk s2 in
            if quiet then (QuietHours, s3) else (Proceed, s3))))"

section \<open>Result compiler\<close>

definition count_status :: "string \<Rightarrow> VideoResult list \<Rightarrow> int" where
  \<comment> \<open>\<^verbatim>\<open>sum(1 for r in results if r.status == st)\<close>\<close>
  "count_status st results = int (length (filter (\<lambda>r. video_status r = st) results))"

definition compile_status :: "int \<Rightarrow> int \<Rightarrow> int \<Rightarrow> BatchStatus" where
  \<comment> \<open>the \<^verbatim>\<open>if/elif\<close> chain of \<^verbatim>\<open>_compile_batch_result\<close>\<close>
  "compile_status requested successful failed =
     (if successful = requested then COMPLETED
      else if successful > 0 then PARTIAL
      else if failed > 0 then FAILED
      else SKIPPED)"

definition compile_batch_result ::
  "clock \<Rightarrow> batch_id \<Rightarrow> int \<Rightarrow> VideoResult list \<Rightarrow> datetime \<Rightarrow> BatchCoordinator
     \<Rightarrow> BatchResult \<times> BatchCoordinator" where
  "compile_batch_result clk bid requested results start_time s =
     (let successful = count_status ''success'' results;
          failed = count_status ''failed'' results;
          skipped = requested - int (length results);
          st = compile_status requested successful failed;
          (t1, s1) = utcnow clk s;
          (t2, s2) = utcnow clk s1
      in (\<lparr>batch_id = bid, status = st, requested_count = requested,
           successful_count = successful, failed_count = failed, skipped_count = skipped,
           total_time = t1 - start_time, videos = results, agent_decision = [],
           timestamp = t2\<rparr>, s2))"

section \<open>History and metrics\<close>

definition update_metrics :: "clock \<Rightarrow> BatchResult \<Rightarrow> BatchCoordinator \<Rightarrow> BatchCoordinator" where
  "update_metrics clk result s =
     (let s1 = s\<lparr>daily_video_count := daily_video_count s + successful_count result\<rparr>;
          s2 = s1\<lparr>hourly_video_count := hourly_video_count s1 + successful_count result\<rparr>;
          (now, s3) = utcnow clk s2;
          s4 = s3\<lparr>last_execution := Some now\<rparr>;
          s5 = s4\<lparr>execution_history := execution_history s4 @ [result]\<rparr>
      in if length (execution_history s5) > 100
         then s5\<lparr>execution_history :=
                  drop (length (execution_history s5) - 100) (execution_history s5)\<rparr>
         else s5)"

text \<open>
  The dictionary returned by \<^verbatim>\<open>_get_recent_performance\<close>, in the order of its keys.
  Python's \<^verbatim>\<open>/\<close> is a division of floats; the model keeps the exact quotient.
\<close>

datatype pyval = PyNone | PyNum rat

definition get_recent_performance :: "BatchCoordinator \<Rightarrow> (string \<times> pyval) list" where
  "get_recent_performance s =
     (if execution_history s = [] then [(''success_rate'', PyNone)]
      else
        (let recent = drop (length (execution_history s) - 10) (execution_history s);
             total_requested = sum_list (map requested_count recent);
             total_successful = sum_list (map successful_count recent)
         in [(''success_rate'',
                PyNum (if total_requested > 0
                       then of_int total_successful / of_int total_requested else 0)),
             (''avg_batch_size'', PyNum (of_int total_requested / of_nat (length recent))),
             (''total_batches'', PyNum (of_nat (length recent)))]))"

section \<open>Decider\<close>

record AgentDecision =
  batch_size :: int
  reasoning :: string
  should_proceed :: bool

text \<open>
  An exception is the text of its message; a call that can raise returns
  \<open>Inl\<close> of it.
\<close>

type_synonym exn = string

text \<open>
  The body of \<^verbatim>\<open>_ask_agent_for_batch_size\<close> as the source has it: the call of the
  agent is a placeholder, the size is the default, one more at peak hours. The clock
  is read for the context's \<^verbatim>\<open>time_of_day\<close> and again for the heuristic. Nothing
  in the body raises.
\<close>

definition ask_agent_for_batch_size ::
  "AntigravitySchedulerConfig \<Rightarrow> clock \<Rightarrow> string list option \<Rightarrow> string option
     \<Rightarrow> BatchCoordinator \<Rightarrow> (exn + AgentDecision) \<times> BatchCoordinator" where
  "ask_agent_for_batch_size cfg clk platforms nch s =
     (let (t_ctx, s1) = utcnow clk s;
          bs = default_batch_size (batch cfg);
          (t, s2) = utcnow clk s1;
          hour = dt_hour t;
          bs' = (if (9 \<le> hour \<and> hour \<le> 11) \<or> (15 \<le> hour \<and> hour \<le> 17)
                 then min (bs + 1) (max_videos (batch cfg)) else bs)
      in (Inr \<lparr>batch_size = bs', reasoning = ''Peak time adjustment'',
                should_proceed = True\<rparr>, s2))"

text \<open>
  The collaborators of a cycle. \<open>ask_agent\<close> is the decision call made by
  \<^verbatim>\<open>_determine_batch_size\<close> (in the source, the placeholder above), which returns a
  decision or raises. \<open>generate_video\<close> is the work provider's call for item \<open>i\<close>
  (in the source, a two second sleep that stands for \<^verbatim>\<open>agent.generate_video\<close>):
  \<open>None\<close> when it returns, \<open>Some e\<close> when it raises \<open>e\<close>. \<open>memory\<close> is the optional
  memory store; \<open>Some store\<close> gives what storing a result does (in the source,
  \<^verbatim>\<open>_store_batch_result\<close> only logs): \<open>None\<close> when it returns, \<open>Some e\<close> when it
  raises \<open>e\<close>.
\<close>

record env =
  clock :: clock
  ask_agent :: "string list option \<Rightarrow> string option \<Rightarrow> BatchCoordinator
                  \<Rightarrow> (exn + AgentDecision) \<times> BatchCoordinator"
  generate_video :: "nat \<Rightarrow> string \<Rightarrow> string option \<Rightarrow> exn option"
  memory :: "(BatchResult \<Rightarrow> exn option) option"

definition determine_batch_size ::
  "AntigravitySchedulerConfig \<Rightarrow> env \<Rightarrow> int option \<Rightarrow> string list option \<Rightarrow> string option
     \<Rightarrow> BatchCoordinator \<Rightarrow> int \<times> BatchCoordinator" where
  "determine_batch_size cfg e force_count platforms nch s =
     (case force_count of
        Some fc \<Rightarrow> (min fc (max_videos (batch cfg)), s)
      | None \<Rightarrow>
          if adaptive (batch cfg) \<and> agent_has_veto cfg then
            (case ask_agent e platforms nch s of
               (Inr decision, s1) \<Rightarrow> (batch_size decision, s1)
             | (Inl err, s1) \<Rightarrow> (default_batch_size (batch cfg), s1))
          else (default_batch_size (batch cfg), s))"

section \<open>Executor\<close>

definition default_platforms :: "string list" where
  "default_platforms = [''tiktok'', ''instagram'']"

definition platforms_or_default :: "string list option \<Rightarrow> string list" where
  \<comment> \<open>\<^verbatim>\<open>platforms or ["tiktok", "instagram"]\<close>: \<^verbatim>\<open>None\<close> and the empty list are falsy\<close>
  "platforms_or_default platforms =
     (case platforms of None \<Rightarrow> default_platforms
      | Some ps \<Rightarrow> if ps = [] then default_platforms else ps)"

definition niche_or_general :: "string option \<Rightarrow> string" where
  \<comment> \<open>\<^verbatim>\<open>niche or "general"\<close>\<close>
  "niche_or_general nch =
     (case nch of None \<Rightarrow> ''general'' | Some n \<Rightarrow> if n = [] then ''general'' else n)"

definition video_success ::
  "clock \<Rightarrow> nat \<Rightarrow> string \<Rightarrow> string option \<Rightarrow> datetime \<Rightarrow> BatchCoordinator
     \<Rightarrow> VideoResult \<times> BatchCoordinator" where
  "video_success clk i pf nch start s =
     (let (t_id, s1) = utcnow clk s;
          (t_end, s2) = utcnow clk s1
      in (\<lparr>video_id = Some t_id, platform = pf, niche = niche_or_general nch,
           video_status = ''success'', error = None, generation_time = t_end - start,
           metadata = [(''index'', int i)]\<rparr>, s2))"

definition video_failed :: "string \<Rightarrow> string option \<Rightarrow> exn \<Rightarrow> VideoResult" where
  "video_failed pf nch err =
     \<lparr>video_id = None, platform = pf, niche = niche_or_general nch,
      video_status = ''failed'', error = Some err, generation_time = 0, metadata = []\<rparr>"

text \<open>
  The loop \<^verbatim>\<open>for i in range(count)\<close> of \<^verbatim>\<open>_execute_videos\<close>: \<open>k\<close> items are left,
  \<open>i\<close> is the index of the next one, \<open>results\<close> the list built so far.
\<close>

fun videos_loop ::
  "AntigravitySchedulerConfig \<Rightarrow> env \<Rightarrow> string list \<Rightarrow> string option \<Rightarrow> nat \<Rightarrow> nat
     \<Rightarrow> VideoResult list \<Rightarrow> BatchCoordinator \<Rightarrow> VideoResult list \<times> BatchCoordinator" where
  "videos_loop cfg e ps nch 0 i results s = (results, s)"
| "videos_loop cfg e ps nch (Suc k) i results s =
     (let pf = ps ! (i mod length ps);
          (start, s1) = utcnow (clock e) s
      in case generate_video e i pf nch of
           None \<Rightarrow>
             (let (r, s2) = video_success (clock e) i pf nch start s1
              in videos_loop cfg e ps nch k (Suc i) (results @ [r]) s2)
         | Some err \<Rightarrow>
             (let results' = results @ [video_failed pf nch err]
              in if \<not> retry_on_failure (batch cfg) then (results', s1)
                 else videos_loop cfg e ps nch k (Suc i) results' s1))"

definition execute_videos ::
  "AntigravitySchedulerConfig \<Rightarrow> env \<Rightarrow> int \<Rightarrow> string list option \<Rightarrow> string option
     \<Rightarrow> BatchCoordinator \<Rightarrow> VideoResult list \<times> BatchCoordinator" where
  "execute_videos cfg e count platforms nch s =
     videos_loop cfg e (platforms_or_default platforms) nch (nat count) 0 [] s"

section \<open>The cycle\<close>

definition create_skipped_result ::
  "clock \<Rightarrow> batch_id \<Rightarrow> string \<Rightarrow> BatchCoordinator \<Rightarrow> BatchResult \<times> BatchCoordinator" where
  "create_skipped_result clk bid reason s =
     (let (now, s1) = utcnow clk s
      in (\<lparr>batch_id = bid, status = SKIPPED, requested_count = 0, successful_count = 0,
           failed_count = 0, skipped_count = 0, total_time = 0, videos = [],
           agent_decision = [(''reason'', reason)], timestamp = now\<rparr>, s1))"

definition create_failed_result ::
  "clock \<Rightarrow> batch_id \<Rightarrow> exn \<Rightarrow> datetime \<Rightarrow> BatchCoordinator
     \<Rightarrow> BatchResult \<times> BatchCoordinator" where
  "create_failed_result clk bid err start_time s =
     (let (t1, s1) = utcnow clk s;
          (t2, s2) = utcnow clk s1
      in (\<lparr>batch_id = bid, status = FAILED, requested_count = 0, successful_count = 0,
           failed_count = 1, skipped_count = 0, total_time = t1 - start_time, videos = [],
           agent_decision = [(''error'', err)], timestamp = t2\<rparr>, s2))"

definition store_batch_result :: "env \<Rightarrow> BatchResult \<Rightarrow> exn option" where
  \<comment> \<open>\<^verbatim>\<open>if self.memory: await self._store_batch_result(batch_result)\<close>\<close>
  "store_batch_result e result =
     (case memory e of None \<Rightarrow> None | Some store \<Rightarrow> store result)"

definition batch_id_of :: "datetime \<Rightarrow> batch_id" where
  "batch_id_of t = t div 1000000"

text \<open>
  The body of the \<^verbatim>\<open>try\<close> of \<^verbatim>\<open>execute_batch\<close>: \<open>Inr\<close> of the result it returns,
  \<open>Inl\<close> of the exception that leaves it.
\<close>

definition try_body ::
  "AntigravitySchedulerConfig \<Rightarrow> env \<Rightarrow> batch_id \<Rightarrow> datetime \<Rightarrow> string list option
     \<Rightarrow> string option \<Rightarrow> int option \<Rightarrow> BatchCoordinator
     \<Rightarrow> (exn + BatchResult) \<times> BatchCoordinator" where
  "try_body cfg e bid start_time platforms nch force_count s =
     (let (g, s1) = should_execute cfg (clock e) s in
      if g \<noteq> Proceed then
        (let (r, s2) = create_skipped_result (clock e) bid ''Rate limit or quiet hours'' s1
         in (Inr r, s2))
      else
        (let (size, s2) = determine_batch_size cfg e force_count platforms nch s1 in
         if size = 0 then
           (let (r, s3) = create_skipped_result (clock e) bid ''Agent vetoed execution'' s2
            in (Inr r, s3))
         else
           (let (results, s3) = execute_videos cfg e size platforms nch s2;
                (batch_result, s4) =
                   compile_batch_result (clock e) bid size results start_time s3;
                s5 = update_metrics (clock e) batch_result s4
            in case store_batch_result e batch_result of
                 Some err \<Rightarrow> (Inl err, s5)
               | None \<Rightarrow> (Inr batch_result, s5))))"

definition begin_batch :: "env \<Rightarrow> BatchCoordinator \<Rightarrow> (batch_id \<times> datetime) \<times> BatchCoordinator" where
  \<comment> \<open>the lines of \<^verbatim>\<open>execute_batch\<close> before its \<^verbatim>\<open>try\<close>\<close>
  "begin_batch e s =
     (let (t0, s1) = utcnow (clock e) s;
          bid = batch_id_of t0;
          s2 = s1\<lparr>current_batch := Some bid\<rparr>;
          (start_time, s3) = utcnow (clock e) s2
      in ((bid, start_time), s3))"

definition execute_batch ::
  "AntigravitySchedulerConfig \<Rightarrow> env \<Rightarrow> string list option \<Rightarrow> string option \<Rightarrow> int option
     \<Rightarrow> BatchCoordinator \<Rightarrow> BatchResult \<times> BatchCoordinator" where
  "execute_batch cfg e platforms nch force_count s =
     (let ((bid, start_time), s3) = begin_batch e s;
          (outcome, s4) = try_body cfg e bid start_time platforms nch force_count s3;
          (result, s5) =
             (case outcome of
                Inr r \<Rightarrow> (r, s4)
              | Inl err \<Rightarrow> create_failed_result (clock e) bid err start_time s4)
      in (result, s5\<lparr>current_batch := None\<rparr>))"

section \<open>Scheduler entry points (antigravity\_scheduler.py)\<close>


definition manual_trigger ::
  "AntigravitySchedulerConfig \<Rightarrow> env \<Rightarrow> string list option \<Rightarrow> string option \<Rightarrow> int option
     \<Rightarrow> BatchCoordinator \<Rightarrow> BatchResult \<times> BatchCoordinator" where
  "manual_trigger cfg e platforms nch force_count s =
     execute_batch cfg e platforms nch force_count s"

text \<open>The collaborators as the source has them, and a fresh coordinator.\<close>

definition source_env :: "AntigravitySchedulerConfig \<Rightarrow> clock \<Rightarrow> env" where
  "source_env cfg clk =
     \<lparr>clock = clk, ask_agent = ask_agent_for_batch_size cfg clk,
      generate_video = (\<lambda>i pf nch. None), memory = None\<rparr>"

definition tick_clock :: "datetime \<Rightarrow> clock" where
  \<comment> \<open>a clock that starts at \<open>t0\<close> and moves one second with each reading\<close>
  "tick_clock t0 n = t0 + int n * 1000000"

definition init_coordinator :: "datetime \<Rightarrow> BatchCoordinator" where
  \<comment> \<open>\<^verbatim>\<open>__init__\<close>, with both reset times read at \<open>t\<close>\<close>
  "init_coordinator t =
     \<lparr>current_batch = None, execution_history = [], last_execution = None,
      daily_video_count = 0, hourly_video_count = 0, last_hour_reset = t,
      last_day_reset = t, reads = 0\<rparr>"

definition night_config :: AntigravitySchedulerConfig where
  \<comment> \<open>the default configuration with quiet hours from 22:00 to 02:00\<close>
  "night_config =
     DEFAULT_CONFIG\<lparr>schedule := default_schedule_config
       \<lparr>quiet_hours_start := time_of 22 0, quiet_hours_end := time_of 2 0\<rparr>\<rparr>"

definition slow_clock :: "datetime \<Rightarrow> clock" where
  \<comment> \<open>a clock that starts at \<open>t0\<close> and moves ten minutes with each reading\<close>
  "slow_clock t0 n = t0 + int n * 600000000"

definition noon_env :: env where
  \<comment> \<open>the source's collaborators, on a clock that starts at 12:00\<close>
  "noon_env = source_env DEFAULT_CONFIG (slow_clock 43200000000)"

definition two_cycles :: BatchCoordinator where
  \<comment> \<open>a fresh coordinator after a cycle forced to the count -1 and a cycle forced to 1\<close>
  "two_cycles =
     snd (execute_batch DEFAULT_CONFIG noon_env None None (Some 1)
       (snd (execute_batch DEFAULT_CONFIG noon_env None None (Some (- 1))
          (init_coordinator 43200000000))))"



definition jump_clock :: "datetime \<Rightarrow> nat \<Rightarrow> datetime \<Rightarrow> clock" where
  \<comment> \<open>one second with each reading, from \<open>t0\<close> for the first \<open>k\<close> readings and from \<open>t1\<close> after\<close>
  "jump_clock t0 k t1 n = (if n < k then t0 else t1) + int n * 1000000"

definition night_env :: env where
  \<comment> \<open>the source's collaborators; the clock starts at 00:30 and is at 01:40 from the
     nineteenth reading on\<close>
  "night_env = source_env DEFAULT_CONFIG (jump_clock 1800000000 18 6000000000)"

definition after_first_cycle :: BatchCoordinator where
  \<comment> \<open>a coordinator created at 00:30, after one scheduled cycle\<close>
  "after_first_cycle =
     snd (execute_batch DEFAULT_CONFIG night_env None None None (init_coordinator 1800000000))"



text \<open>
  A decision call that leaves the coordinator as it is, but for the clock readings it
  takes.
\<close>

definition provider_reads_only :: "env \<Rightarrow> bool" where
  "provider_reads_only e =
     (\<forall>platforms nch s. \<exists>k. snd (ask_agent e platforms nch s) = s\<lparr>reads := k\<rparr>)"


definition item_status :: "exn option \<Rightarrow> string" where
  "item_status out = (case out of None \<Rightarrow> ''success'' | Some err \<Rightarrow> ''failed'')"





section \<open>The cycle as a coroutine\<close>

text \<open>
  \<^verbatim>\<open>execute_batch\<close> is a coroutine on the event loop. The only place where it hands
  control back to the loop is the call of the work provider inside an item (in the
  source, \<^verbatim>\<open>await asyncio.sleep(2)\<close>); every other \<^verbatim>\<open>await\<close> in it is of a coroutine
  of the coordinator that runs through. Between two such places the code runs
  without interruption. A cycle that waits there is described by what its frame holds:
  the batch id and start time, the decided size, the platforms and niche, the number
  of items left (the one in progress included), the index of the item in progress,
  the results so far and the start time of the item in progress.
\<close>

record cycle =
  cy_batch_id :: batch_id
  cy_start_time :: datetime
  cy_size :: int
  cy_platforms :: "string list"
  cy_niche :: "string option"
  cy_left :: nat
  cy_index :: nat
  cy_results :: "VideoResult list"
  cy_item_start :: datetime

definition finish_cycle ::
  "AntigravitySchedulerConfig \<Rightarrow> env \<Rightarrow> cycle \<Rightarrow> VideoResult list \<Rightarrow> BatchCoordinator
     \<Rightarrow> BatchResult \<times> BatchCoordinator" where
  \<comment> \<open>after the loop: steps 4 to 6 of \<^verbatim>\<open>execute_batch\<close>, its \<^verbatim>\<open>except\<close> and its \<^verbatim>\<open>finally\<close>\<close>
  "finish_cycle cfg e c results s =
     (let (batch_result, s4) =
            compile_batch_result (clock e) (cy_batch_id c) (cy_size c) results
              (cy_start_time c) s;
          s5 = update_metrics (clock e) batch_result s4;
          (result, s6) =
            (case store_batch_result e batch_result of
               None \<Rightarrow> (batch_result, s5)
             | Some err \<Rightarrow>
                 create_failed_result (clock e) (cy_batch_id c) err (cy_start_time c) s5)
      in (result, s6\<lparr>current_batch := None\<rparr>))"

definition enter_item ::
  "AntigravitySchedulerConfig \<Rightarrow> env \<Rightarrow> cycle \<Rightarrow> BatchCoordinator
     \<Rightarrow> (BatchResult + cycle) \<times> BatchCoordinator" where
  \<comment> \<open>the head of the loop: leave it when no item is left, else read the item's start
     time and wait for the work provider\<close>
  "enter_item cfg e c s =
     (if cy_left c = 0 then
        (let (r, s1) = finish_cycle cfg e c (cy_results c) s in (Inl r, s1))
      else
        (let (start, s1) = utcnow (clock e) s in (Inr (c\<lparr>cy_item_start := start\<rparr>), s1)))"

definition start_cycle ::
  "AntigravitySchedulerConfig \<Rightarrow> env \<Rightarrow> string list option \<Rightarrow> string option \<Rightarrow> int option
     \<Rightarrow> BatchCoordinator \<Rightarrow> (BatchResult + cycle) \<times> BatchCoordinator" where
  \<comment> \<open>a call of \<^verbatim>\<open>execute_batch\<close>, up to its result or to the first item's wait\<close>
  "start_cycle cfg e platforms nch force_count s =
     (let ((bid, start_time), s3) = begin_batch e s;
          (g, s1) = should_execute cfg (clock e) s3 in
      if g \<noteq> Proceed then
        (let (r, s2) = create_skipped_result (clock e) bid ''Rate limit or quiet hours'' s1
         in (Inl r, s2\<lparr>current_batch := None\<rparr>))
      else
        (let (size, s2) = determine_batch_size cfg e force_count platforms nch s1 in
         if size = 0 then
           (let (r, s4) = create_skipped_result (clock e) bid ''Agent vetoed execution'' s2
            in (Inl r, s4\<lparr>current_batch := None\<rparr>))
         else
           enter_item cfg e
             \<lparr>cy_batch_id = bid, cy_start_time = start_time, cy_size = size,
              cy_platforms = platforms_or_default platforms, cy_niche = nch,
              cy_left = nat size, cy_index = 0, cy_results = [], cy_item_start = 0\<rparr> s2))"

definition resume_cycle ::
  "AntigravitySchedulerConfig \<Rightarrow> env \<Rightarrow> cycle \<Rightarrow> BatchCoordinator
     \<Rightarrow> (BatchResult + cycle) \<times> BatchCoordinator" where
  \<comment> \<open>the work provider's call is over: the rest of the item, then on to the next wait
     or to the result\<close>
  "resume_cycle cfg e c s =
     (let i = cy_index c;
          pf = cy_platforms c ! (i mod length (cy_platforms c))
      in case generate_video e i pf (cy_niche c) of
           None \<Rightarrow>
             (let (r, s2) = video_success (clock e) i pf (cy_niche c) (cy_item_start c) s
              in enter_item cfg e
                   (c\<lparr>cy_left := cy_left c - 1, cy_index := Suc i,
                      cy_results := cy_results c @ [r]\<rparr>) s2)
         | Some err \<Rightarrow>
             (let results' = cy_results c @ [video_failed pf (cy_niche c) err]
              in if \<not> retry_on_failure (batch cfg) then
                   (let (r, s1) = finish_cycle cfg e c results' s in (Inl r, s1))
                 else
                   enter_item cfg e
                     (c\<lparr>cy_left := cy_left c - 1, cy_index := Suc i,
                        cy_results := results'\<rparr>) s))"

text \<open>
  A cycle run alone: resumed as soon as it waits, until it returns. \<open>None\<close> when the
  fuel is used up before that.
\<close>

fun run_cycle ::
  "nat \<Rightarrow> AntigravitySchedulerConfig \<Rightarrow> env \<Rightarrow> (BatchResult + cycle) \<times> BatchCoordinator
     \<Rightarrow> (BatchResult \<times> BatchCoordinator) option" where
  "run_cycle fuel cfg e (Inl r, s) = Some (r, s)"
| "run_cycle 0 cfg e (Inr c, s) = None"
| "run_cycle (Suc fuel) cfg e (Inr c, s) = run_cycle fuel cfg e (resume_cycle cfg e c s)"

definition in_flight :: "(BatchResult + cycle) \<times> BatchCoordinator \<Rightarrow> bool" where
  "in_flight p = (case fst p of Inl r \<Rightarrow> False | Inr c \<Rightarrow> True)"

definition tick_noon_env :: env where
  \<comment> \<open>the source's collaborators, on a clock that starts at 12:00 and moves a second
     with each reading\<close>
  "tick_noon_env = source_env DEFAULT_CONFIG (tick_clock 43200000000)"

definition scheduled_fire :: "(BatchResult + cycle) \<times> BatchCoordinator" where
  \<comment> \<open>a fresh coordinator; the scheduled job calls \<^verbatim>\<open>execute_batch()\<close>\<close>
  "scheduled_fire =
     start_cycle DEFAULT_CONFIG tick_noon_env None None None (init_coordinator 43200000000)"

definition manual_during_fire :: "(BatchResult + cycle) \<times> BatchCoordinator" where
  \<comment> \<open>while that cycle waits in its first item, \<^verbatim>\<open>manual_trigger()\<close> is called\<close>
  "manual_during_fire =
     start_cycle DEFAULT_CONFIG tick_noon_env None None None (snd scheduled_fire)"

section \<open>Basic facts\<close>

lemma utcnow_simps [simp]:
  "fst (utcnow clk s) = clk (reads s)"
  "snd (utcnow clk s) = s\<lparr>reads := Suc (reads s)\<rparr>"
  by (simp_all add: utcnow_def)

lemma count_status_nonneg: "0 \<le> count_status st results"
  by (simp add: count_status_def)

lemma reset_counters_fields:
  "reads (reset_counters clk s) = Suc (reads s)"
  "current_batch (reset_counters clk s) = current_batch s"
  "execution_history (reset_counters clk s) = execution_history s"
  "last_execution (reset_counters clk s) = last_execution s"
  "hourly_video_count (reset_counters clk s) =
     (if clk (reads s) - last_hour_reset s \<ge> timedelta_hours 1 then 0
      else hourly_video_count s)"
  "last_hour_reset (reset_counters clk s) =
     (if clk (reads s) - last_hour_reset s \<ge> timedelta_hours 1 then clk (reads s)
      else last_hour_reset s)"
  "daily_video_count (reset_counters clk s) =
     (if clk (reads s) - last_day_reset s \<ge> timedelta_days 1 then 0
      else daily_video_count s)"
  "last_day_reset (reset_counters clk s) =
     (if clk (reads s) - last_day_reset s \<ge> timedelta_days 1 then clk (reads s)
      else last_day_reset s)"
  by (simp_all add: reset_counters_def utcnow_def Let_def)

lemma in_cooldown_fst:
  "fst (in_cooldown cfg clk s) =
     (case last_execution s of None \<Rightarrow> False
      | Some le \<Rightarrow> clk (reads s) - le < timedelta_minutes (api_cooldown_minutes (batch cfg)))"
  by (simp add: in_cooldown_def utcnow_def split: option.splits)

lemma in_cooldown_snd:
  "snd (in_cooldown cfg clk s) =
     s\<lparr>reads := reads s + (if last_execution s = None then 0 else 1)\<rparr>"
  by (simp add: in_cooldown_def utcnow_def split: option.splits)

lemma is_quiet_hours_fst:
  "fst (is_quiet_hours cfg clk s) = quiet_hours_at cfg (dt_time (clk (reads s)))"
  by (simp add: is_quiet_hours_def utcnow_def)

lemma is_quiet_hours_snd: "snd (is_quiet_hours cfg clk s) = s\<lparr>reads := Suc (reads s)\<rparr>"
  by (simp add: is_quiet_hours_def utcnow_def)

lemma should_execute_fst:
  "fst (should_execute cfg clk s) =
     (let s1 = reset_counters clk s in
      if daily_video_count s1 \<ge> max_daily_videos (batch cfg) then DailyLimit
      else if hourly_video_count s1 \<ge> max_hourly_videos (batch cfg) then HourlyLimit
      else if fst (in_cooldown cfg clk s1) then Cooldown
      else if fst (is_quiet_hours cfg clk (snd (in_cooldown cfg clk s1))) then QuietHours
      else Proceed)"
  by (simp add: should_execute_def Let_def split: prod.splits)

text \<open>The gate changes the state by its reset and by the clock readings it takes.\<close>

lemma should_execute_snd:
  "\<exists>n. snd (should_execute cfg clk s) = (reset_counters clk s)\<lparr>reads := n\<rparr>"
  by (auto simp add: should_execute_def Let_def in_cooldown_def is_quiet_hours_def utcnow_def
      split: prod.splits option.splits intro: exI[of _ "reads (reset_counters clk s)"])

section \<open>Result compiler: the status table\<close>

text \<open>
  C1, as the code has it. For every requested count and list of item results whose
  successful and failed counts sum to at most the requested count, the compiled status
  follows the table when the requested count is positive: Completed exactly when all
  requested items succeeded, Partial exactly when some but not all did, Failed exactly
  when none succeeded and some failed, Skipped exactly when none succeeded and none
  failed. When the requested count is zero the compiled status is Completed.
\<close>

theorem compile_status_table:
  assumes "count_status ''success'' results + count_status ''failed'' results \<le> requested"
  shows "let r = fst (compile_batch_result clk bid requested results start_time s);
             successful = successful_count r; failed = failed_count r
         in successful = count_status ''success'' results
          \<and> failed = count_status ''failed'' results
          \<and> requested_count r = requested
          \<and> (0 < requested \<longrightarrow>
                (status r = COMPLETED \<longleftrightarrow> successful = requested)
              \<and> (status r = PARTIAL \<longleftrightarrow> 0 < successful \<and> successful < requested)
              \<and> (status r = FAILED \<longleftrightarrow> successful = 0 \<and> 0 < failed)
              \<and> (status r = SKIPPED \<longleftrightarrow> successful = 0 \<and> failed = 0))
          \<and> (requested = 0 \<longrightarrow> status r = COMPLETED)"
  using assms count_status_nonneg[of "''success''" results]
    count_status_nonneg[of "''failed''" results]
  by (auto simp add: compile_batch_result_def compile_status_def utcnow_def Let_def)

text \<open>
  One success and one failure out of three requested items compile to Partial.
\<close>

theorem compile_status_table_witness:
  "status (fst (compile_batch_result (tick_clock 0) 1 3
      [fst (video_success (tick_clock 0) 0 ''tiktok'' None 0 (init_coordinator 0)),
       video_failed ''instagram'' None ''boom''] 0 (init_coordinator 0))) = PARTIAL"
  using compile_status_table[of
      "[fst (video_success (tick_clock 0) 0 ''tiktok'' None 0 (init_coordinator 0)),
        video_failed ''instagram'' None ''boom'']" 3 "tick_clock 0" 1 0 "init_coordinator 0"]
  by (simp add: count_status_def video_success_def video_failed_def utcnow_def Let_def)

text \<open>
  The triple (0, 0, 0) satisfies the claim's condition; the claim's table gives Skipped
  (no success, no failure), the compiler gives Completed.
\<close>

theorem compile_status_zero_counterexample:
  "count_status ''success'' [] + count_status ''failed'' [] \<le> 0
   \<and> count_status ''success'' [] = 0 \<and> count_status ''failed'' [] = 0
   \<and> status (fst (compile_batch_result (tick_clock 0) 1 0 [] 0 (init_coordinator 0)))
       = COMPLETED
   \<and> status (fst (compile_batch_result (tick_clock 0) 1 0 [] 0 (init_coordinator 0)))
       \<noteq> SKIPPED"
  by (simp add: count_status_def compile_batch_result_def compile_status_def utcnow_def
      Let_def)

section \<open>Gate: lazy reset of the counters\<close>

text \<open>
  C6. On a gate evaluation whose clock reading \<open>now\<close> is at least one hour after
  \<open>last_hour_reset\<close>, the hourly count is 0 and \<open>last_hour_reset\<close> is \<open>now\<close> afterwards,
  and the hourly limit is checked against the count 0: the evaluation is skipped by the
  hourly limit only when the daily limit has let it through and the configured hourly
  limit itself is not positive. The same holds for the daily count with a window of
  one day; the daily limit is the first check.
\<close>

theorem gate_resets_before_limits:
  fixes cfg clk s
  defines "now \<equiv> clk (reads s)"
      and "g \<equiv> fst (should_execute cfg clk s)"
      and "s' \<equiv> snd (should_execute cfg clk s)"
  shows "(now - last_hour_reset s \<ge> timedelta_hours 1 \<longrightarrow>
            hourly_video_count s' = 0 \<and> last_hour_reset s' = now
          \<and> (g = HourlyLimit \<longleftrightarrow>
               daily_video_count s' < max_daily_videos (batch cfg)
             \<and> max_hourly_videos (batch cfg) \<le> 0))
       \<and> (now - last_day_reset s \<ge> timedelta_days 1 \<longrightarrow>
            daily_video_count s' = 0 \<and> last_day_reset s' = now
          \<and> (g = DailyLimit \<longleftrightarrow> max_daily_videos (batch cfg) \<le> 0))"
proof -
  obtain n where n: "s' = (reset_counters clk s)\<lparr>reads := n\<rparr>"
    using should_execute_snd[of cfg clk s] by (auto simp: s'_def)
  show ?thesis
    unfolding g_def n now_def
    by (auto simp add: should_execute_fst reset_counters_fields Let_def)
qed

text \<open>
  A counter reset 61 minutes ago with an hourly count of 5, evaluated at 12:00 under the
  default configuration (hourly limit 8): the count is 0 and the reset time is the
  reading afterwards, and the hourly limit does not skip the evaluation.
\<close>

theorem gate_resets_before_limits_witness:
  "hourly_video_count (snd (should_execute DEFAULT_CONFIG (tick_clock 43200000000)
       ((init_coordinator 39540000000)\<lparr>hourly_video_count := 5\<rparr>))) = 0
   \<and> last_hour_reset (snd (should_execute DEFAULT_CONFIG (tick_clock 43200000000)
       ((init_coordinator 39540000000)\<lparr>hourly_video_count := 5\<rparr>))) = 43200000000
   \<and> fst (should_execute DEFAULT_CONFIG (tick_clock 43200000000)
       ((init_coordinator 39540000000)\<lparr>hourly_video_count := 5\<rparr>)) \<noteq> HourlyLimit"
  using gate_resets_before_limits[where cfg = DEFAULT_CONFIG
      and clk = "tick_clock 43200000000"
      and s = "(init_coordinator 39540000000)\<lparr>hourly_video_count := 5\<rparr>"]
  by (simp add: tick_clock_def init_coordinator_def timedelta_hours_def timedelta_days_def
      DEFAULT_CONFIG_def default_batch_config_def)

section \<open>Gate: quiet hours\<close>

text \<open>
  C7. For every time of day \<open>t\<close> and configured bounds: when start < end, \<open>t\<close> is inside
  quiet hours exactly when start \<le> t \<le> end; otherwise (the window wraps past midnight)
  exactly when t \<ge> start or t \<le> end. \<^verbatim>\<open>_is_quiet_hours\<close> applies this to the time of
  day of its clock reading, and the gate skips for quiet hours exactly when the daily
  limit, the hourly limit and the cooldown have let the evaluation through and the
  reading is inside.
\<close>

theorem quiet_hours_window:
  fixes cfg clk s t
  defines "st \<equiv> quiet_hours_start (schedule cfg)"
      and "en \<equiv> quiet_hours_end (schedule cfg)"
      and "s1 \<equiv> reset_counters clk s"
  shows "(quiet_hours_at cfg t \<longleftrightarrow>
            (if st < en then st \<le> t \<and> t \<le> en else st \<le> t \<or> t \<le> en))
       \<and> fst (is_quiet_hours cfg clk s) = quiet_hours_at cfg (dt_time (clk (reads s)))
       \<and> (fst (should_execute cfg clk s) = QuietHours \<longleftrightarrow>
            daily_video_count s1 < max_daily_videos (batch cfg)
          \<and> hourly_video_count s1 < max_hourly_videos (batch cfg)
          \<and> \<not> fst (in_cooldown cfg clk s1)
          \<and> quiet_hours_at cfg (dt_time (clk (reads (snd (in_cooldown cfg clk s1))))))"
  unfolding st_def en_def s1_def
  by (auto simp add: quiet_hours_at_def is_quiet_hours_fst should_execute_fst Let_def)

text \<open>
  With quiet hours from 01:00 to 06:00, 03:00 is inside and 23:00 is outside; with
  quiet hours from 22:00 to 02:00, 23:30 is inside and 10:00 is outside.
\<close>

theorem quiet_hours_window_witness:
  "quiet_hours_at DEFAULT_CONFIG (time_of 3 0)
   \<and> \<not> quiet_hours_at DEFAULT_CONFIG (time_of 23 0)
   \<and> quiet_hours_at night_config (time_of 23 30)
   \<and> \<not> quiet_hours_at night_config (time_of 10 0)"
  using quiet_hours_window[where cfg = DEFAULT_CONFIG and t = "time_of 3 0"]
    quiet_hours_window[where cfg = DEFAULT_CONFIG and t = "time_of 23 0"]
    quiet_hours_window[where cfg = night_config and t = "time_of 23 30"]
    quiet_hours_window[where cfg = night_config and t = "time_of 10 0"]
  by (simp add: DEFAULT_CONFIG_def night_config_def default_schedule_config_def time_of_def)

section \<open>Recent performance\<close>

text \<open>
  C9, as the code has it. The metric is computed over the last 10 entries of the
  history (all of them when there are fewer). The success rate is undefined
  (\<^verbatim>\<open>None\<close>) only when the history is empty; over a non-empty history it is the sum of
  the successful counts divided by the sum of the requested counts when that sum is
  positive, and 0 otherwise. The average batch size, present when the history is not
  empty, is the sum of the requested counts divided by the number of entries in the
  window.
\<close>

theorem recent_performance_window:
  fixes s
  defines "h \<equiv> execution_history s"
      and "recent \<equiv> drop (length (execution_history s) - 10) (execution_history s)"
  defines "tr \<equiv> sum_list (map requested_count recent)"
      and "ts \<equiv> sum_list (map successful_count recent)"
  shows "length recent = min 10 (length h)
       \<and> map_of (get_recent_performance s) ''success_rate'' =
           Some (if h = [] then PyNone
                 else if 0 < tr then PyNum (of_int ts / of_int tr) else PyNum 0)
       \<and> map_of (get_recent_performance s) ''avg_batch_size'' =
           (if h = [] then None else Some (PyNum (of_int tr / of_nat (min 10 (length h)))))"
  unfolding h_def recent_def tr_def ts_def
  by (auto simp add: get_recent_performance_def Let_def min_def)

text \<open>
  After a cycle forced to the count -1 and a cycle forced to the count 1, the window
  holds two entries whose requested counts sum to 0 and whose successful counts sum
  to 1: the success rate is 0, not undefined.
\<close>

theorem recent_performance_zero_counterexample:
  "map requested_count (execution_history two_cycles) = [- 1, 1]
   \<and> map successful_count (execution_history two_cycles) = [0, 1]
   \<and> map_of (get_recent_performance two_cycles) ''success_rate'' = Some (PyNum 0)
   \<and> map_of (get_recent_performance two_cycles) ''success_rate'' \<noteq> Some PyNone"
  by code_simp

section \<open>Decider: the forced count\<close>

text \<open>
  C4, at the failing input. A forced count bypasses the decider: the size is the
  smaller of the forced count and \<open>max_videos\<close>, whatever the decision call would do,
  and the state is untouched; a forced count of 7 with \<open>max_videos\<close> 5 gives 5. There is
  no lower bound: a forced count of -1 gives the size -1, and the cycle run with it
  returns a result whose requested count is -1.
\<close>

theorem forced_count_not_clamped_below:
  "determine_batch_size cfg e (Some fc) platforms nch s = (min fc (max_videos (batch cfg)), s)
   \<and> fst (determine_batch_size DEFAULT_CONFIG e (Some 7) platforms nch s) = 5
   \<and> fst (determine_batch_size DEFAULT_CONFIG e (Some (- 1)) platforms nch s) = - 1
   \<and> requested_count (fst (execute_batch DEFAULT_CONFIG noon_env None None (Some (- 1))
        (init_coordinator 43200000000))) = - 1"
proof -
  have "requested_count (fst (execute_batch DEFAULT_CONFIG noon_env None None (Some (- 1))
        (init_coordinator 43200000000))) = - 1"
    by code_simp
  then show ?thesis
    by (simp add: determine_batch_size_def DEFAULT_CONFIG_def default_batch_config_def)
qed

section \<open>The cycle: its paths\<close>


lemma execute_batch_unfold:
  "execute_batch cfg e platforms nch force_count s =
     (let bb = begin_batch e s;
          bid = fst (fst bb);
          start_time = snd (fst bb);
          tb = try_body cfg e bid start_time platforms nch force_count (snd bb);
          rs = (case fst tb of
                  Inr r \<Rightarrow> (r, snd tb)
                | Inl err \<Rightarrow> create_failed_result (clock e) bid err start_time (snd tb))
      in (fst rs, (snd rs)\<lparr>current_batch := None\<rparr>))"
  by (simp add: execute_batch_def Let_def case_prod_beta)

lemma begin_batch_snd:
  "snd (begin_batch e s) =
     s\<lparr>reads := Suc (Suc (reads s)), current_batch := Some (batch_id_of (clock e (reads s)))\<rparr>"
  by (simp add: begin_batch_def utcnow_def Let_def)

lemma begin_batch_fst:
  "fst (begin_batch e s) = (batch_id_of (clock e (reads s)), clock e (Suc (reads s)))"
  by (simp add: begin_batch_def utcnow_def Let_def)

lemma create_skipped_result_fst:
  "fst (create_skipped_result clk bid reason s) =
     \<lparr>batch_id = bid, status = SKIPPED, requested_count = 0, successful_count = 0,
      failed_count = 0, skipped_count = 0, total_time = 0, videos = [],
      agent_decision = [(''reason'', reason)], timestamp = clk (reads s)\<rparr>"
  by (simp add: create_skipped_result_def utcnow_def Let_def)

lemma create_skipped_result_snd:
  "snd (create_skipped_result clk bid reason s) = s\<lparr>reads := Suc (reads s)\<rparr>"
  by (simp add: create_skipped_result_def utcnow_def Let_def)

lemma try_body_unfold:
  "try_body cfg e bid start_time platforms nch force_count s =
     (let se = should_execute cfg (clock e) s in
      if fst se \<noteq> Proceed then
        (Inr (fst (create_skipped_result (clock e) bid ''Rate limit or quiet hours'' (snd se))),
         snd (create_skipped_result (clock e) bid ''Rate limit or quiet hours'' (snd se)))
      else
        (let db = determine_batch_size cfg e force_count platforms nch (snd se) in
         if fst db = 0 then
           (Inr (fst (create_skipped_result (clock e) bid ''Agent vetoed execution'' (snd db))),
            snd (create_skipped_result (clock e) bid ''Agent vetoed execution'' (snd db)))
         else
           (let ev = execute_videos cfg e (fst db) platforms nch (snd db);
                cb = compile_batch_result (clock e) bid (fst db) (fst ev) start_time (snd ev);
                s5 = update_metrics (clock e) (fst cb) (snd cb)
            in case store_batch_result e (fst cb) of
                 Some err \<Rightarrow> (Inl err, s5)
               | None \<Rightarrow> (Inr (fst cb), s5))))"
  by (simp add: try_body_def Let_def case_prod_beta)

lemma try_body_gate_skip:
  assumes "fst (should_execute cfg (clock e) s) \<noteq> Proceed"
  shows "try_body cfg e bid start_time platforms nch force_count s =
     (Inr (fst (create_skipped_result (clock e) bid ''Rate limit or quiet hours''
                  (snd (should_execute cfg (clock e) s)))),
      snd (create_skipped_result (clock e) bid ''Rate limit or quiet hours''
             (snd (should_execute cfg (clock e) s))))"
  using assms by (simp add: try_body_unfold Let_def)

lemma try_body_veto:
  assumes "fst (should_execute cfg (clock e) s) = Proceed"
      and "fst (determine_batch_size cfg e force_count platforms nch
                  (snd (should_execute cfg (clock e) s))) = 0"
  shows "try_body cfg e bid start_time platforms nch force_count s =
     (Inr (fst (create_skipped_result (clock e) bid ''Agent vetoed execution''
                  (snd (determine_batch_size cfg e force_count platforms nch
                          (snd (should_execute cfg (clock e) s)))))),
      snd (create_skipped_result (clock e) bid ''Agent vetoed execution''
             (snd (determine_batch_size cfg e force_count platforms nch
                     (snd (should_execute cfg (clock e) s))))))"
  using assms by (simp add: try_body_unfold Let_def)

lemma determine_batch_size_frame:
  assumes "provider_reads_only e"
  shows "\<exists>k. snd (determine_batch_size cfg e force_count platforms nch s) = s\<lparr>reads := k\<rparr>"
proof -
  obtain k where k: "snd (ask_agent e platforms nch s) = s\<lparr>reads := k\<rparr>"
    using assms unfolding provider_reads_only_def by blast
  have same: "s = s\<lparr>reads := reads s\<rparr>" by simp
  show ?thesis
  proof (cases "force_count = None \<and> adaptive (batch cfg) \<and> agent_has_veto cfg")
    case True
    then have "snd (determine_batch_size cfg e force_count platforms nch s)
                = snd (ask_agent e platforms nch s)"
      by (simp add: determine_batch_size_def split: prod.splits sum.splits)
    then show ?thesis using k by auto
  next
    case False
    then have "snd (determine_batch_size cfg e force_count platforms nch s) = s"
      by (auto simp add: determine_batch_size_def split: option.splits)
    then show ?thesis using same by metis
  qed
qed

lemma source_env_reads_only: "provider_reads_only (source_env cfg clk)"
  unfolding provider_reads_only_def
  by (auto simp add: source_env_def ask_agent_for_batch_size_def utcnow_def Let_def)




section \<open>Skipped cycles\<close>

text \<open>
  C10, as the code has it. When the gate refuses the cycle, or the gate lets it through
  and the decided batch size is 0, \<^verbatim>\<open>execute_batch\<close> returns a Skipped result with
  all counts zero and no items, carrying the reason. The metrics update does not run:
  \<open>last_execution\<close> and the history are as before, and \<open>current_batch\<close> is cleared.
  The daily and hourly counts are never incremented, but they are not always as
  before: the gate's lazy reset, evaluated at the gate's clock reading \<open>now\<close>, sets a
  count to 0 and its reset time to \<open>now\<close> when its window has elapsed. The decision call
  is taken to leave the coordinator as it is, as the source's does.
\<close>

theorem skipped_cycle_frame:
  fixes cfg e platforms nch force_count s
  defines "s3 \<equiv> snd (begin_batch e s)"
  defines "g \<equiv> fst (should_execute cfg (clock e) s3)"
      and "sg \<equiv> snd (should_execute cfg (clock e) s3)"
  defines "bsize \<equiv> fst (determine_batch_size cfg e force_count platforms nch sg)"
      and "r \<equiv> fst (execute_batch cfg e platforms nch force_count s)"
      and "s' \<equiv> snd (execute_batch cfg e platforms nch force_count s)"
      and "now \<equiv> clock e (reads s + 2)"
  assumes ro: "provider_reads_only e" and skip: "g \<noteq> Proceed \<or> bsize = 0"
  shows "status r = SKIPPED \<and> requested_count r = 0 \<and> successful_count r = 0
       \<and> failed_count r = 0 \<and> skipped_count r = 0 \<and> videos r = []
       \<and> agent_decision r =
           [(''reason'', if g \<noteq> Proceed then ''Rate limit or quiet hours''
                         else ''Agent vetoed execution'')]
       \<and> last_execution s' = last_execution s
       \<and> execution_history s' = execution_history s
       \<and> current_batch s' = None
       \<and> hourly_video_count s' =
           (if now - last_hour_reset s \<ge> timedelta_hours 1 then 0 else hourly_video_count s)
       \<and> last_hour_reset s' =
           (if now - last_hour_reset s \<ge> timedelta_hours 1 then now else last_hour_reset s)
       \<and> daily_video_count s' =
           (if now - last_day_reset s \<ge> timedelta_days 1 then 0 else daily_video_count s)
       \<and> last_day_reset s' =
           (if now - last_day_reset s \<ge> timedelta_days 1 then now else last_day_reset s)"
proof -
  obtain n where n: "sg = (reset_counters (clock e) s3)\<lparr>reads := n\<rparr>"
    using should_execute_snd[of cfg "clock e" s3] by (auto simp: sg_def)
  obtain k where k:
    "snd (determine_batch_size cfg e force_count platforms nch sg) = sg\<lparr>reads := k\<rparr>"
    using determine_batch_size_frame[OF ro] by blast
  have s3: "s3 = s\<lparr>reads := Suc (Suc (reads s)),
                   current_batch := Some (batch_id_of (clock e (reads s)))\<rparr>"
    by (simp add: s3_def begin_batch_snd)
  define bid where "bid = fst (fst (begin_batch e s))"
  define start_time where "start_time = snd (fst (begin_batch e s))"
  define tb where "tb = try_body cfg e bid start_time platforms nch force_count s3"
  have eb: "r = (case fst tb of Inr x \<Rightarrow> x
                 | Inl err \<Rightarrow> fst (create_failed_result (clock e) bid err start_time (snd tb)))"
     "s' = (case fst tb of Inr x \<Rightarrow> snd tb
            | Inl err \<Rightarrow> snd (create_failed_result (clock e) bid err start_time (snd tb)))
           \<lparr>current_batch := None\<rparr>"
    unfolding r_def s'_def tb_def bid_def start_time_def s3_def
    by (simp_all add: execute_batch_unfold Let_def split: sum.splits)
  have reset: "sg = (reset_counters (clock e) s3)\<lparr>reads := n\<rparr>" by (rule n)
  show ?thesis
  proof (cases "g = Proceed")
    case False
    then have tb': "tb = (Inr (fst (create_skipped_result (clock e) bid
                                 ''Rate limit or quiet hours'' sg)),
                          snd (create_skipped_result (clock e) bid
                                 ''Rate limit or quiet hours'' sg))"
      unfolding tb_def g_def sg_def by (rule try_body_gate_skip)
    show ?thesis
      using False
      by (simp add: eb tb' create_skipped_result_fst create_skipped_result_snd n s3
          reset_counters_fields now_def)
  next
    case True
    with skip have z: "bsize = 0" by simp
    have tb': "tb = (Inr (fst (create_skipped_result (clock e) bid ''Agent vetoed execution''
                                 (sg\<lparr>reads := k\<rparr>))),
                     snd (create_skipped_result (clock e) bid ''Agent vetoed execution''
                                 (sg\<lparr>reads := k\<rparr>)))"
      using try_body_veto[of cfg e s3 force_count platforms nch bid start_time]
        True z k
      unfolding tb_def g_def sg_def bsize_def by simp
    show ?thesis
      using True
      by (simp add: eb tb' create_skipped_result_fst create_skipped_result_snd n s3
          reset_counters_fields now_def)
  qed
qed


text \<open>
  A coordinator created at 00:30 runs a scheduled cycle of three videos; the next
  cycle, at 01:40, is skipped for quiet hours: history, \<open>last_execution\<close> and the daily
  count are as before.
\<close>

theorem skipped_cycle_frame_witness:
  "status (fst (execute_batch DEFAULT_CONFIG night_env None None None after_first_cycle))
     = SKIPPED
   \<and> execution_history (snd (execute_batch DEFAULT_CONFIG night_env None None None
        after_first_cycle)) = execution_history after_first_cycle
   \<and> last_execution (snd (execute_batch DEFAULT_CONFIG night_env None None None
        after_first_cycle)) = last_execution after_first_cycle
   \<and> daily_video_count (snd (execute_batch DEFAULT_CONFIG night_env None None None
        after_first_cycle)) = daily_video_count after_first_cycle"
proof -
  have ro: "provider_reads_only night_env"
    unfolding night_env_def by (rule source_env_reads_only)
  have g: "fst (should_execute DEFAULT_CONFIG (clock night_env)
                  (snd (begin_batch night_env after_first_cycle))) = QuietHours"
    by code_simp
  have d: "\<not> timedelta_days 1 \<le> clock night_env (reads after_first_cycle + 2)
                - last_day_reset after_first_cycle"
    by code_simp
  show ?thesis
    using skipped_cycle_frame[where cfg = DEFAULT_CONFIG and e = night_env
        and s = after_first_cycle and platforms = None and nch = None
        and force_count = None, OF ro] g d
    by simp
qed

text \<open>
  In that skipped cycle the hourly count does change: it is 3 before the cycle and 0
  after it, since the hour has elapsed.
\<close>

theorem skipped_cycle_reset_counterexample:
  "status (fst (execute_batch DEFAULT_CONFIG night_env None None None after_first_cycle))
     = SKIPPED
   \<and> hourly_video_count after_first_cycle = 3
   \<and> hourly_video_count (snd (execute_batch DEFAULT_CONFIG night_env None None None
        after_first_cycle)) = 0"
  by code_simp

section \<open>Cycle failure\<close>




section \<open>Decider failure\<close>





section \<open>Executor: the failure policy\<close>








lemma statuses_no_failure:
  assumes "\<forall>i<n. out i = None"
  shows "map (\<lambda>m. item_status (out m)) [0..<n] = replicate n ''success''"
  using assms by (induction n) (auto simp add: item_status_def replicate_append_same)





section \<open>The coroutine runs the cycle\<close>

text \<open>
  Resumed whenever it waits, the coroutine returns what \<^verbatim>\<open>execute_batch\<close> returns,
  after as many resumptions as the batch has items.
\<close>

lemma finish_cycle_frame [simp]:
  "finish_cycle cfg e (c\<lparr>cy_left := a\<rparr>) = finish_cycle cfg e c"
  "finish_cycle cfg e (c\<lparr>cy_index := b\<rparr>) = finish_cycle cfg e c"
  "finish_cycle cfg e (c\<lparr>cy_results := rs\<rparr>) = finish_cycle cfg e c"
  "finish_cycle cfg e (c\<lparr>cy_item_start := t\<rparr>) = finish_cycle cfg e c"
  by (simp_all add: finish_cycle_def fun_eq_iff Let_def case_prod_beta split: option.splits)

lemma run_enter_item:
  "cy_left c = k \<Longrightarrow>
   run_cycle k cfg e (enter_item cfg e c s) =
     Some (finish_cycle cfg e c
             (fst (videos_loop cfg e (cy_platforms c) (cy_niche c) k (cy_index c)
                     (cy_results c) s))
             (snd (videos_loop cfg e (cy_platforms c) (cy_niche c) k (cy_index c)
                     (cy_results c) s)))"
proof (induction k arbitrary: c s)
  case 0
  then show ?case by (simp add: enter_item_def case_prod_beta)
next
  case (Suc k)
  define c1 where "c1 = c\<lparr>cy_item_start := clock e (reads s)\<rparr>"
  define s1 where "s1 = s\<lparr>reads := Suc (reads s)\<rparr>"
  define pf where "pf = cy_platforms c ! (cy_index c mod length (cy_platforms c))"
  have enter: "enter_item cfg e c s = (Inr c1, s1)"
    using Suc.prems by (simp add: enter_item_def utcnow_def c1_def s1_def)
  have step: "run_cycle (Suc k) cfg e (enter_item cfg e c s)
                = run_cycle k cfg e (resume_cycle cfg e c1 s1)"
    by (simp add: enter)
  show ?case
  proof (cases "generate_video e (cy_index c) pf (cy_niche c)")
    case None
    define vs where "vs = video_success (clock e) (cy_index c) pf (cy_niche c)
                            (clock e (reads s)) s1"
    define c2 where "c2 = c1\<lparr>cy_left := cy_left c1 - 1, cy_index := Suc (cy_index c),
                              cy_results := cy_results c @ [fst vs]\<rparr>"
    have res: "resume_cycle cfg e c1 s1 = enter_item cfg e c2 (snd vs)"
      using None
      by (simp add: resume_cycle_def c1_def pf_def Let_def case_prod_beta vs_def c2_def)
    have left: "cy_left c2 = k" using Suc.prems by (simp add: c2_def c1_def)
    have fields: "cy_platforms c2 = cy_platforms c" "cy_niche c2 = cy_niche c"
      "cy_index c2 = Suc (cy_index c)" "cy_results c2 = cy_results c @ [fst vs]"
      "finish_cycle cfg e c2 = finish_cycle cfg e c"
      by (simp_all add: c2_def c1_def)
    have loop: "videos_loop cfg e (cy_platforms c) (cy_niche c) (Suc k) (cy_index c)
                  (cy_results c) s
                = videos_loop cfg e (cy_platforms c) (cy_niche c) k (Suc (cy_index c))
                    (cy_results c @ [fst vs]) (snd vs)"
      using None
      by (simp add: pf_def[symmetric] utcnow_def Let_def case_prod_beta vs_def s1_def)
    show ?thesis
      unfolding step res loop using Suc.IH[OF left, of "snd vs"]
      by (simp only: fields)
  next
    case (Some err)
    define rs where "rs = cy_results c @ [video_failed pf (cy_niche c) err]"
    define c2 where "c2 = c1\<lparr>cy_left := cy_left c1 - 1, cy_index := Suc (cy_index c),
                              cy_results := rs\<rparr>"
    have left: "cy_left c2 = k" using Suc.prems by (simp add: c2_def c1_def)
    have fields: "cy_platforms c2 = cy_platforms c" "cy_niche c2 = cy_niche c"
      "cy_index c2 = Suc (cy_index c)" "cy_results c2 = rs"
      "finish_cycle cfg e c2 = finish_cycle cfg e c"
      "finish_cycle cfg e c1 = finish_cycle cfg e c"
      by (simp_all add: c2_def c1_def)
    show ?thesis
    proof (cases "retry_on_failure (batch cfg)")
      case True
      have res: "resume_cycle cfg e c1 s1 = enter_item cfg e c2 s1"
        using Some True
        by (simp add: resume_cycle_def c1_def pf_def Let_def rs_def c2_def)
      have loop: "videos_loop cfg e (cy_platforms c) (cy_niche c) (Suc k) (cy_index c)
                    (cy_results c) s
                  = videos_loop cfg e (cy_platforms c) (cy_niche c) k (Suc (cy_index c))
                      rs s1"
        using Some True
        by (simp add: pf_def[symmetric] utcnow_def Let_def rs_def s1_def)
      show ?thesis
        unfolding step res loop using Suc.IH[OF left, of s1]
        by (simp only: fields)
    next
      case False
      have res: "resume_cycle cfg e c1 s1 =
                   (Inl (fst (finish_cycle cfg e c1 rs s1)),
                    snd (finish_cycle cfg e c1 rs s1))"
        using Some False
        by (simp add: resume_cycle_def c1_def pf_def Let_def rs_def case_prod_beta)
      have loop: "videos_loop cfg e (cy_platforms c) (cy_niche c) (Suc k) (cy_index c)
                    (cy_results c) s = (rs, s1)"
        using Some False
        by (simp add: pf_def[symmetric] utcnow_def Let_def rs_def s1_def)
      show ?thesis
        unfolding step res loop by (simp add: fields)
    qed
  qed
qed


lemma start_cycle_unfold:
  "start_cycle cfg e platforms nch force_count s =
     (let bb = begin_batch e s;
          se = should_execute cfg (clock e) (snd bb) in
      if fst se \<noteq> Proceed then
        (Inl (fst (create_skipped_result (clock e) (fst (fst bb))
                     ''Rate limit or quiet hours'' (snd se))),
         (snd (create_skipped_result (clock e) (fst (fst bb))
                     ''Rate limit or quiet hours'' (snd se)))\<lparr>current_batch := None\<rparr>)
      else
        (let db = determine_batch_size cfg e force_count platforms nch (snd se) in
         if fst db = 0 then
           (Inl (fst (create_skipped_result (clock e) (fst (fst bb))
                        ''Agent vetoed execution'' (snd db))),
            (snd (create_skipped_result (clock e) (fst (fst bb))
                        ''Agent vetoed execution'' (snd db)))\<lparr>current_batch := None\<rparr>)
         else
           enter_item cfg e
             \<lparr>cy_batch_id = fst (fst bb), cy_start_time = snd (fst bb), cy_size = fst db,
              cy_platforms = platforms_or_default platforms, cy_niche = nch,
              cy_left = nat (fst db), cy_index = 0, cy_results = [], cy_item_start = 0\<rparr>
             (snd db)))"
  by (simp add: start_cycle_def Let_def case_prod_beta)

lemma run_cycle_execute_batch:
  fixes cfg e platforms nch force_count s
  defines "bsize \<equiv> fst (determine_batch_size cfg e force_count platforms nch
                          (snd (should_execute cfg (clock e) (snd (begin_batch e s)))))"
  shows "run_cycle (nat bsize) cfg e (start_cycle cfg e platforms nch force_count s)
           = Some (execute_batch cfg e platforms nch force_count s)"
proof -
  define bb where "bb = begin_batch e s"
  define se where "se = should_execute cfg (clock e) (snd bb)"
  define db where "db = determine_batch_size cfg e force_count platforms nch (snd se)"
  have bs: "bsize = fst db" by (simp add: bsize_def db_def se_def bb_def)
  show ?thesis
  proof (cases "fst se = Proceed")
    case False
    then show ?thesis
      by (simp add: start_cycle_unfold execute_batch_unfold try_body_unfold Let_def
          bb_def[symmetric] se_def[symmetric])
  next
    case True
    show ?thesis
    proof (cases "fst db = 0")
      case True
      with \<open>fst se = Proceed\<close> show ?thesis
        by (simp add: start_cycle_unfold execute_batch_unfold try_body_unfold Let_def
            bb_def[symmetric] se_def[symmetric] db_def[symmetric])
    next
      case False
      define c0 where "c0 =
        \<lparr>cy_batch_id = fst (fst bb), cy_start_time = snd (fst bb), cy_size = fst db,
         cy_platforms = platforms_or_default platforms, cy_niche = nch,
         cy_left = nat (fst db), cy_index = 0, cy_results = [], cy_item_start = 0\<rparr>"
      have sc: "start_cycle cfg e platforms nch force_count s = enter_item cfg e c0 (snd db)"
        using \<open>fst se = Proceed\<close> False
        by (simp add: start_cycle_unfold Let_def bb_def[symmetric] se_def[symmetric]
            db_def[symmetric] c0_def)
      have left: "cy_left c0 = nat (fst db)" by (simp add: c0_def)
      define ev where "ev = execute_videos cfg e (fst db) platforms nch (snd db)"
      have run: "run_cycle (nat (fst db)) cfg e (enter_item cfg e c0 (snd db))
                   = Some (finish_cycle cfg e c0 (fst ev) (snd ev))"
        using run_enter_item[OF left, of cfg e "snd db"]
        by (simp add: ev_def execute_videos_def c0_def)
      have eb: "execute_batch cfg e platforms nch force_count s
                  = finish_cycle cfg e c0 (fst ev) (snd ev)"
        using \<open>fst se = Proceed\<close> False
        by (simp add: execute_batch_unfold try_body_unfold Let_def bb_def[symmetric]
            se_def[symmetric] db_def[symmetric] ev_def[symmetric] finish_cycle_def c0_def
            case_prod_beta split: option.splits)
      show ?thesis by (simp only: bs sc run eb)
    qed
  qed
qed

section \<open>Overlapping cycles\<close>

text \<open>
  C2, as the code has it. A call of \<^verbatim>\<open>execute_batch\<close>, from the scheduled job or from
  \<^verbatim>\<open>manual_trigger\<close>, does not look at \<open>current_batch\<close>: whatever the marker holds, the
  call does the same, and it is in flight (waiting in its first item) exactly when the
  gate lets it through and the decided size is positive. It is neither rejected nor
  made to wait because a cycle is in progress.
\<close>

theorem no_single_flight_guard:
  fixes cfg e platforms nch force_count s cb
  defines "g \<equiv> fst (should_execute cfg (clock e) (snd (begin_batch e s)))"
      and "bsize \<equiv> fst (determine_batch_size cfg e force_count platforms nch
                          (snd (should_execute cfg (clock e) (snd (begin_batch e s)))))"
  shows "start_cycle cfg e platforms nch force_count (s\<lparr>current_batch := cb\<rparr>)
           = start_cycle cfg e platforms nch force_count s
       \<and> manual_trigger cfg e platforms nch force_count (s\<lparr>current_batch := cb\<rparr>)
           = manual_trigger cfg e platforms nch force_count s
       \<and> (in_flight (start_cycle cfg e platforms nch force_count (s\<lparr>current_batch := cb\<rparr>))
            \<longleftrightarrow> g = Proceed \<and> 0 < bsize)"
proof -
  have bb: "begin_batch e (s\<lparr>current_batch := cb\<rparr>) = begin_batch e s"
    by (simp add: begin_batch_def utcnow_def Let_def)
  have sc: "start_cycle cfg e platforms nch force_count (s\<lparr>current_batch := cb\<rparr>)
           = start_cycle cfg e platforms nch force_count s"
    by (simp add: start_cycle_unfold bb)
  have mt: "manual_trigger cfg e platforms nch force_count (s\<lparr>current_batch := cb\<rparr>)
           = manual_trigger cfg e platforms nch force_count s"
    by (simp add: manual_trigger_def execute_batch_unfold bb)
  have fl: "in_flight (start_cycle cfg e platforms nch force_count s)
            \<longleftrightarrow> g = Proceed \<and> 0 < bsize"
    unfolding g_def bsize_def
    by (auto simp add: start_cycle_unfold Let_def in_flight_def enter_item_def utcnow_def
        case_prod_beta)
  show ?thesis using sc mt fl by simp
qed

text \<open>
  A scheduled fire on a fresh coordinator at 12:00 waits in its first item with
  \<open>current_batch\<close> set; \<^verbatim>\<open>manual_trigger()\<close> called at that moment passes the gate,
  replaces the marker by its own batch id and waits in its own first item: two cycles
  are in progress.
\<close>

theorem two_cycles_in_flight_counterexample:
  "in_flight scheduled_fire
   \<and> current_batch (snd scheduled_fire) = Some 43200
   \<and> in_flight manual_during_fire
   \<and> current_batch (snd manual_during_fire) = Some 43207"
  by code_simp

end
